theory Spec2Isabelle
  imports Main "HOL-Library.Word" "HOL-Library.Sublist"
begin

section \<open>Strings of the source language\<close>

text \<open>
  A TypeScript string is a sequence of UTF-16 code units. The form trims its inputs with
  \<open>String.prototype.trim\<close> and tests strings for truthiness, so the model keeps the
  code units: a string is a list of 16-bit words, the empty list is the empty string.
\<close>

type_synonym code_unit = "16 word"
type_synonym jsstring = "code_unit list"

definition ascii :: "string \<Rightarrow> jsstring" where
  "ascii cs = map (\<lambda>c. word_of_nat (of_char c)) cs"

text \<open>
  The characters \<open>trim\<close> removes: ECMAScript's WhiteSpace (TAB, VT, FF, ZWNBSP and the
  Unicode space separators) and LineTerminator (LF, CR, LS, PS) code points. All of them
  lie in the basic plane, so each is one code unit.
\<close>

definition is_ws :: "code_unit \<Rightarrow> bool" where
  "is_ws c \<longleftrightarrow>
     c = 0x0009 \<or> c = 0x000A \<or> c = 0x000B \<or> c = 0x000C \<or> c = 0x000D \<or>
     c = 0x0020 \<or> c = 0x00A0 \<or> c = 0x1680 \<or> (0x2000 \<le> c \<and> c \<le> 0x200A) \<or>
     c = 0x2028 \<or> c = 0x2029 \<or> c = 0x202F \<or> c = 0x205F \<or> c = 0x3000 \<or>
     c = 0xFEFF"

definition trimStart :: "jsstring \<Rightarrow> jsstring" where
  "trimStart s = dropWhile is_ws s"

definition trimEnd :: "jsstring \<Rightarrow> jsstring" where
  "trimEnd s = rev (dropWhile is_ws (rev s))"

definition trim :: "jsstring \<Rightarrow> jsstring" where
  "trim s = trimEnd (trimStart s)"

text \<open>Truthiness of a string, and of a value of type \<open>string | null\<close>.\<close>

definition truthy :: "jsstring \<Rightarrow> bool" where
  "truthy s \<longleftrightarrow> s \<noteq> []"

definition truthy_opt :: "jsstring option \<Rightarrow> bool" where
  "truthy_opt v = (case v of None \<Rightarrow> False | Some s \<Rightarrow> truthy s)"

text \<open>\<open>a || b\<close> on strings.\<close>

definition or_else :: "jsstring \<Rightarrow> jsstring \<Rightarrow> jsstring" where
  "or_else a b = (if truthy a then a else b)"

section \<open>Data model\<close>

text \<open>
  \<open>ArtistAlias\<close> has the fields \<open>id\<close> and \<open>name\<close>; \<open>Artist\<close> has \<open>id\<close>, \<open>name\<close>,
  \<open>description\<close> and \<open>aliases\<close>. The form works on \<open>Omit<Artist, 'id'>\<close>, which is the
  record \<open>artist_data\<close>; \<open>artist\<close> extends it by the id. The id fields are renamed
  (\<open>id\<close> is the identity function of HOL), and so is the alias's \<open>name\<close>. Ids are the
  integers the source uses (\<open>Date.now()\<close> for a new alias).
\<close>

record artist_alias =
  alias_id :: int
  alias_name :: jsstring

record artist_data =
  name :: jsstring
  description :: jsstring
  aliases :: "artist_alias list"

record artist = artist_data +
  artist_id :: int

text \<open>
  The answer of \<open>checkArtistDuplicate\<close>. Its declaration is in the API client; the form
  reads the three fields below.
\<close>

record dup_result =
  isDuplicate :: bool
  duplicateType :: jsstring
  duplicateName :: jsstring

text \<open>
  How an awaited promise settles. \<open>Rejected\<close> carries the thrown value, which the code
  only passes to \<open>console.error\<close>.
\<close>

datatype 'a outcome = Resolved 'a | Rejected jsstring

text \<open>What a handler does to the world outside the component state, in order.\<close>

datatype effect =
    PreventDefault
  | Alert jsstring
  | ConsoleError "jsstring list"
  | CheckArtistDuplicate jsstring "int option"
  | OnSubmit artist_data
  | OnCancel
  | Confirm jsstring
  | FetchArtists
  | DeleteArtist int
  | UpdateArtist int artist_data
  | CreateArtist artist_data

section \<open>Message texts\<close>

text \<open>The Korean literals of the source, as code units.\<close>

definition msg_dup_name_prefix :: jsstring where
  "msg_dup_name_prefix =
     [0xC774, 0xBBF8, 0x0020, 0xB4F1, 0xB85D, 0xB41C, 0x0020, 0xC544, 0xD2F0, 0xC2A4,
      0xD2B8, 0x0020, 0xC774, 0xB984, 0xC785, 0xB2C8, 0xB2E4, 0x003A, 0x0020, 0x0022]"

definition msg_dup_alias_prefix :: jsstring where
  "msg_dup_alias_prefix =
     [0xC774, 0xBBF8, 0x0020, 0xB2E4, 0xB978, 0x0020, 0xC544, 0xD2F0, 0xC2A4, 0xD2B8,
      0xC758, 0x0020, 0xBCC4, 0xBA85, 0xC73C, 0xB85C, 0x0020, 0xB4F1, 0xB85D, 0xB418,
      0xC5B4, 0x0020, 0xC788, 0xC2B5, 0xB2C8, 0xB2E4, 0x003A, 0x0020, 0x0022]"

definition msg_check_failed :: jsstring where
  "msg_check_failed =
     [0xC911, 0xBCF5, 0x0020, 0xD655, 0xC778, 0x0020, 0xC911, 0x0020, 0xC624, 0xB958,
      0xAC00, 0x0020, 0xBC1C, 0xC0DD, 0xD588, 0xC2B5, 0xB2C8, 0xB2E4, 0x002E]"

definition msg_alert_duplicate :: jsstring where
  "msg_alert_duplicate =
     [0xC911, 0xBCF5, 0xB41C, 0x0020, 0xC544, 0xD2F0, 0xC2A4, 0xD2B8, 0x0020, 0xC774,
      0xB984, 0xC774, 0x0020, 0xC788, 0xC2B5, 0xB2C8, 0xB2E4, 0x002E, 0x0020, 0xB2E4,
      0xB978, 0x0020, 0xC774, 0xB984, 0xC744, 0x0020, 0xC0AC, 0xC6A9, 0xD574, 0xC8FC,
      0xC138, 0xC694, 0x002E]"

definition msg_already_added :: jsstring where
  "msg_already_added =
     [0xC774, 0xBBF8, 0x0020, 0xCD94, 0xAC00, 0xB41C, 0x0020, 0xBCC4, 0xBA85, 0xC785,
      0xB2C8, 0xB2E4, 0x002E]"

definition msg_confirm_delete :: jsstring where
  "msg_confirm_delete =
     [0xC815, 0xB9D0, 0xB85C, 0x0020, 0xC774, 0x0020, 0xC544, 0xD2F0, 0xC2A4, 0xD2B8,
      0xB97C, 0x0020, 0xC0AD, 0xC81C, 0xD558, 0xC2DC, 0xACA0, 0xC2B5, 0xB2C8, 0xAE4C,
      0x003F]"

text \<open>
  The template both duplicate checks build: one of two prefixes, chosen by
  \<open>duplicateType === 'name'\<close>, then \<open>duplicateName\<close>, then a closing double quote.
\<close>

definition duplicate_message :: "dup_result \<Rightarrow> jsstring" where
  "duplicate_message result =
     (if duplicateType result = ascii ''name'' then msg_dup_name_prefix
      else msg_dup_alias_prefix) @ duplicateName result @ [0x0022]"

section \<open>ArtistForm\<close>

record form_state =
  formData :: artist_data
  newAlias :: jsstring
  isSubmitting :: bool
  nameError :: "jsstring option"
  isCheckingDuplicate :: bool
  aliasError :: "jsstring option"
  isCheckingAliasDuplicate :: bool

text \<open>The state of the first render, from the \<open>useState\<close> initialisers.\<close>

definition init_form :: "artist option \<Rightarrow> form_state" where
  "init_form initialData =
     \<lparr>formData =
        \<lparr>name = (case initialData of None \<Rightarrow> [] | Some a \<Rightarrow> or_else (name a) []),
         description = (case initialData of None \<Rightarrow> [] | Some a \<Rightarrow> or_else (description a) []),
         aliases = (case initialData of None \<Rightarrow> [] | Some a \<Rightarrow> aliases a)\<rparr>,
      newAlias = [],
      isSubmitting = False,
      nameError = None,
      isCheckingDuplicate = False,
      aliasError = None,
      isCheckingAliasDuplicate = False\<rparr>"

text \<open>The effect that runs when the \<open>initialData\<close> prop changes.\<close>

definition initialData_effect :: "artist option \<Rightarrow> form_state \<Rightarrow> form_state" where
  "initialData_effect initialData s =
     (let fd = (case initialData of
                  Some a \<Rightarrow> \<lparr>name = name a, description = description a, aliases = aliases a\<rparr>
                | None \<Rightarrow> \<lparr>name = [], description = [], aliases = []\<rparr>)
      in s\<lparr>formData := fd, newAlias := [], nameError := None, aliasError := None\<rparr>)"

text \<open>The \<open>onChange\<close> handlers of the three inputs.\<close>

definition name_onChange :: "jsstring \<Rightarrow> form_state \<Rightarrow> form_state" where
  "name_onChange v s = s\<lparr>formData := (formData s)\<lparr>name := v\<rparr>\<rparr>"

definition description_onChange :: "jsstring \<Rightarrow> form_state \<Rightarrow> form_state" where
  "description_onChange v s = s\<lparr>formData := (formData s)\<lparr>description := v\<rparr>\<rparr>"

definition newAlias_onChange :: "jsstring \<Rightarrow> form_state \<Rightarrow> form_state" where
  "newAlias_onChange v s =
     (let s1 = s\<lparr>newAlias := v\<rparr>
      in if truthy_opt (aliasError s) then s1\<lparr>aliasError := None\<rparr> else s1)"

text \<open>
  An async handler runs up to its \<open>await\<close>, and the rest runs when the promise settles.
  Each one is modelled in two parts: \<open>_begin\<close> returns the state, the effects so far and
  whether a request is now pending; \<open>_resume\<close> is the continuation, applied to the state
  at that later moment. The handler without a suffix runs both with nothing in between.
\<close>

definition checkNameDuplicate_begin ::
  "artist option \<Rightarrow> jsstring \<Rightarrow> form_state \<Rightarrow> form_state \<times> effect list \<times> bool" where
  "checkNameDuplicate_begin initialData nm s =
     (if \<not> truthy (trim nm) then (s\<lparr>nameError := None\<rparr>, [], False)
      else (s\<lparr>isCheckingDuplicate := True\<rparr>,
            [CheckArtistDuplicate nm (map_option artist_id initialData)], True))"

definition checkNameDuplicate_resume ::
  "dup_result outcome \<Rightarrow> form_state \<Rightarrow> form_state \<times> effect list" where
  "checkNameDuplicate_resume settled s =
     (case settled of
        Resolved result \<Rightarrow>
          (if isDuplicate result
           then (s\<lparr>nameError := Some (duplicate_message result), isCheckingDuplicate := False\<rparr>, [])
           else (s\<lparr>nameError := None, isCheckingDuplicate := False\<rparr>, []))
      | Rejected err \<Rightarrow>
          (s\<lparr>nameError := Some msg_check_failed, isCheckingDuplicate := False\<rparr>,
           [ConsoleError [ascii ''Error checking duplicate:'', err]]))"

definition checkNameDuplicate ::
  "artist option \<Rightarrow> jsstring \<Rightarrow> dup_result outcome \<Rightarrow> form_state \<Rightarrow> form_state \<times> effect list" where
  "checkNameDuplicate initialData nm settled s =
     (case checkNameDuplicate_begin initialData nm s of
        (s1, es, pending) \<Rightarrow>
          if pending
          then (case checkNameDuplicate_resume settled s1 of (s2, es') \<Rightarrow> (s2, es @ es'))
          else (s1, es))"

text \<open>
  The debounce timer firing, 500 ms after the last change of the name. Every change of
  the name clears the timer, so the name the callback sees is the current one.
\<close>

definition debounce_begin ::
  "artist option \<Rightarrow> form_state \<Rightarrow> form_state \<times> effect list \<times> bool" where
  "debounce_begin initialData s =
     (if truthy (trim (name (formData s)))
      then checkNameDuplicate_begin initialData (name (formData s)) s
      else (s\<lparr>nameError := None\<rparr>, [], False))"

definition form_handleSubmit_begin :: "form_state \<Rightarrow> form_state \<times> effect list \<times> bool" where
  "form_handleSubmit_begin s =
     (if truthy_opt (nameError s)
      then (s, [PreventDefault, Alert msg_alert_duplicate], False)
      else (s\<lparr>isSubmitting := True\<rparr>, [PreventDefault, OnSubmit (formData s)], True))"

definition form_handleSubmit_resume :: "unit outcome \<Rightarrow> form_state \<Rightarrow> form_state \<times> effect list" where
  "form_handleSubmit_resume settled s =
     (case settled of
        Resolved _ \<Rightarrow> (s\<lparr>isSubmitting := False\<rparr>, [OnCancel])
      | Rejected err \<Rightarrow>
          (s\<lparr>isSubmitting := False\<rparr>, [ConsoleError [ascii ''Error submitting form:'', err]]))"

definition form_handleSubmit :: "unit outcome \<Rightarrow> form_state \<Rightarrow> form_state \<times> effect list" where
  "form_handleSubmit settled s =
     (case form_handleSubmit_begin s of
        (s1, es, pending) \<Rightarrow>
          if pending
          then (case form_handleSubmit_resume settled s1 of (s2, es') \<Rightarrow> (s2, es @ es'))
          else (s1, es))"

text \<open>
  \<open>handleAddAlias\<close>. The continuation reads \<open>newAlias\<close> from the closure of the call, so
  \<open>_resume\<close> takes that captured text; the alias list it extends is the one of the state
  at that moment (\<open>setFormData(prev => ...)\<close>). \<open>now\<close> is what \<open>Date.now()\<close> returns.
\<close>

definition handleAddAlias_begin ::
  "artist option \<Rightarrow> form_state \<Rightarrow> form_state \<times> effect list \<times> bool" where
  "handleAddAlias_begin initialData s =
     (if \<not> truthy (trim (newAlias s)) then (s, [], False)
      else if list_ex (\<lambda>alias. alias_name alias = trim (newAlias s)) (aliases (formData s))
      then (s\<lparr>aliasError := Some msg_already_added\<rparr>, [], False)
      else (s\<lparr>isCheckingAliasDuplicate := True\<rparr>,
            [CheckArtistDuplicate (trim (newAlias s)) (map_option artist_id initialData)], True))"

definition handleAddAlias_resume ::
  "jsstring \<Rightarrow> dup_result outcome \<Rightarrow> int \<Rightarrow> form_state \<Rightarrow> form_state \<times> effect list" where
  "handleAddAlias_resume captured settled now s =
     (case settled of
        Resolved result \<Rightarrow>
          (if isDuplicate result
           then (s\<lparr>aliasError := Some (duplicate_message result),
                   isCheckingAliasDuplicate := False\<rparr>, [])
           else (let newAliasObj = \<lparr>alias_id = now, alias_name = trim captured\<rparr>
                 in (s\<lparr>formData := (formData s)\<lparr>aliases := aliases (formData s) @ [newAliasObj]\<rparr>,
                       newAlias := [],
                       aliasError := None,
                       isCheckingAliasDuplicate := False\<rparr>, [])))
      | Rejected err \<Rightarrow>
          (s\<lparr>aliasError := Some msg_check_failed, isCheckingAliasDuplicate := False\<rparr>,
           [ConsoleError [ascii ''Error checking alias duplicate:'', err]]))"

definition handleAddAlias ::
  "artist option \<Rightarrow> dup_result outcome \<Rightarrow> int \<Rightarrow> form_state \<Rightarrow> form_state \<times> effect list" where
  "handleAddAlias initialData settled now s =
     (case handleAddAlias_begin initialData s of
        (s1, es, pending) \<Rightarrow>
          if pending
          then (case handleAddAlias_resume (newAlias s) settled now s1 of
                  (s2, es') \<Rightarrow> (s2, es @ es'))
          else (s1, es))"

definition handleRemoveAlias :: "int \<Rightarrow> form_state \<Rightarrow> form_state" where
  "handleRemoveAlias aliasId s =
     s\<lparr>formData := (formData s)\<lparr>aliases := filter (\<lambda>alias. alias_id alias \<noteq> aliasId)
                                                  (aliases (formData s))\<rparr>\<rparr>"

text \<open>The \<open>disabled\<close> attribute of the submit button.\<close>

definition submit_disabled :: "form_state \<Rightarrow> bool" where
  "submit_disabled s \<longleftrightarrow>
     isSubmitting s \<or> \<not> truthy (name (formData s)) \<or> \<not> truthy (description (formData s)) \<or>
     truthy_opt (nameError s) \<or> isCheckingDuplicate s"

section \<open>ArtistsPage\<close>

record page_state =
  artists :: "artist list"
  isLoading :: bool
  error :: "jsstring option"
  isFormOpen :: bool
  editingArtist :: "artist option"
  selectedArtist :: "artist option"

definition init_page :: page_state where
  "init_page =
     \<lparr>artists = [], isLoading = True, error = None, isFormOpen = False,
      editingArtist = None, selectedArtist = None\<rparr>"

text \<open>
  \<open>loadArtists\<close> awaits \<open>fetchArtists()\<close> and then only sets state, so it is modelled in
  one step, given how the request settles. It catches every rejection itself.
\<close>

definition loadArtists :: "artist list outcome \<Rightarrow> page_state \<Rightarrow> page_state \<times> effect list" where
  "loadArtists fetched s =
     (case fetched of
        Resolved data \<Rightarrow> (s\<lparr>artists := data, error := None, isLoading := False\<rparr>, [FetchArtists])
      | Rejected err \<Rightarrow>
          (s\<lparr>error := Some (ascii ''Failed to load artists''), isLoading := False\<rparr>,
           [FetchArtists, ConsoleError [err]]))"

text \<open>The mount effect (\<open>useEffect\<close> with no dependencies) on the first state.\<close>

definition mount :: "artist list outcome \<Rightarrow> page_state \<times> effect list" where
  "mount fetched = loadArtists fetched init_page"

text \<open>
  \<open>handleDelete\<close>: \<open>confirmed\<close> is the answer of \<open>window.confirm\<close>, \<open>deleted\<close> how
  \<open>deleteArtist(id)\<close> settles and \<open>fetched\<close> how the refetch settles.
\<close>

definition handleDelete ::
  "int \<Rightarrow> bool \<Rightarrow> unit outcome \<Rightarrow> artist list outcome \<Rightarrow> page_state \<Rightarrow> page_state \<times> effect list" where
  "handleDelete artistId confirmed deleted fetched s =
     (if confirmed
      then (case deleted of
              Resolved _ \<Rightarrow>
                (case loadArtists fetched s of
                   (s1, es) \<Rightarrow> (s1, [Confirm msg_confirm_delete, DeleteArtist artistId] @ es))
            | Rejected err \<Rightarrow>
                (s, [Confirm msg_confirm_delete, DeleteArtist artistId,
                     ConsoleError [ascii ''Error deleting artist:'', err]]))
      else (s, [Confirm msg_confirm_delete]))"

definition handleEdit :: "artist \<Rightarrow> page_state \<Rightarrow> page_state" where
  "handleEdit a s = s\<lparr>editingArtist := Some a, isFormOpen := True\<rparr>"

definition handleView :: "artist \<Rightarrow> page_state \<Rightarrow> page_state" where
  "handleView a s = s\<lparr>selectedArtist := Some a\<rparr>"

definition handleCloseForm :: "page_state \<Rightarrow> page_state" where
  "handleCloseForm s = s\<lparr>isFormOpen := False, editingArtist := None\<rparr>"

definition handleCloseModal :: "page_state \<Rightarrow> page_state" where
  "handleCloseModal s = s\<lparr>selectedArtist := None\<rparr>"

text \<open>
  The page's \<open>handleSubmit\<close>, which the form receives as \<open>onSubmit\<close>: \<open>saved\<close> is how
  \<open>updateArtist\<close> or \<open>createArtist\<close> settles, \<open>fetched\<close> how the refetch settles.
\<close>

definition page_handleSubmit ::
  "artist_data \<Rightarrow> unit outcome \<Rightarrow> artist list outcome \<Rightarrow> page_state \<Rightarrow> page_state \<times> effect list" where
  "page_handleSubmit data saved fetched s =
     (let request = (case editingArtist s of
                       Some a \<Rightarrow> UpdateArtist (artist_id a) data
                     | None \<Rightarrow> CreateArtist data)
      in case saved of
           Resolved _ \<Rightarrow>
             (case loadArtists fetched s of (s1, es) \<Rightarrow> (handleCloseForm s1, request # es))
         | Rejected err \<Rightarrow> (s, [request, ConsoleError [ascii ''Error saving artist:'', err]]))"

text \<open>
  What the page renders: the spinner while loading, the error box when \<open>error\<close> is
  truthy, otherwise the table with one row per artist (id, name, description, alias
  names), the detail modal of the selected artist, and the form with its props.
\<close>

datatype table_row = TableRow int jsstring jsstring "jsstring list"

datatype page_view =
    LoadingView
  | ErrorView jsstring
  | ListView "table_row list" "artist option" bool "artist option"

definition row_of :: "artist \<Rightarrow> table_row" where
  "row_of a = TableRow (artist_id a) (name a) (description a) (map alias_name (aliases a))"

definition list_view :: "page_state \<Rightarrow> page_view" where
  "list_view s =
     ListView (map row_of (artists s)) (selectedArtist s) (isFormOpen s) (editingArtist s)"

definition render :: "page_state \<Rightarrow> page_view" where
  "render s =
     (if isLoading s then LoadingView
      else case error s of
             Some e \<Rightarrow> if truthy e then ErrorView e else list_view s
           | None \<Rightarrow> list_view s)"

text \<open>Which effects are requests to the API client.\<close>

fun is_api_call :: "effect \<Rightarrow> bool" where
  "is_api_call (CheckArtistDuplicate _ _) = True"
| "is_api_call FetchArtists = True"
| "is_api_call (DeleteArtist _) = True"
| "is_api_call (UpdateArtist _ _) = True"
| "is_api_call (CreateArtist _) = True"
| "is_api_call _ = False"

section \<open>The form as an event-driven state machine\<close>

text \<open>
  Between two events the component re-renders, so every handler sees the current state
  and the current \<open>initialData\<close> prop. A configuration holds the prop, the state and the
  requests that have not settled yet: how many name checks and submissions, and for each
  pending alias check the \<open>newAlias\<close> text its continuation has captured. A settling
  event with nothing pending does nothing.

  The debounce timer is set by the effect that depends on \<open>formData.name\<close>, so its
  callback belongs to the render in which the name last changed (or to the first render):
  the name it reads is the current one, but the \<open>initialData\<close> it passes on is the prop
  of that render, kept in \<open>timerInitialData\<close>.
\<close>

record form_config =
  initialData_prop :: "artist option"
  timerInitialData :: "artist option"
  form :: form_state
  pendingNameChecks :: nat
  pendingSubmits :: nat
  pendingAliasChecks :: "jsstring list"

datatype form_event =
    PropsChanged "artist option"
  | NameChanged jsstring
  | DescriptionChanged jsstring
  | NewAliasChanged jsstring
  | DebounceFired
  | NameCheckSettled "dup_result outcome"
  | SubmitRequested
  | SubmitSettled "unit outcome"
  | AddAliasRequested
  | AddAliasSettled nat "dup_result outcome" int
  | RemoveAliasRequested int

fun form_step :: "form_event \<Rightarrow> form_config \<Rightarrow> form_config" where
  "form_step (PropsChanged i) c =
     c\<lparr>initialData_prop := i,
       timerInitialData :=
         (if name (formData (initialData_effect i (form c))) = name (formData (form c))
          then timerInitialData c else i),
       form := initialData_effect i (form c)\<rparr>"
| "form_step (NameChanged v) c =
     c\<lparr>timerInitialData :=
         (if v = name (formData (form c)) then timerInitialData c else initialData_prop c),
       form := name_onChange v (form c)\<rparr>"
| "form_step (DescriptionChanged v) c = c\<lparr>form := description_onChange v (form c)\<rparr>"
| "form_step (NewAliasChanged v) c = c\<lparr>form := newAlias_onChange v (form c)\<rparr>"
| "form_step DebounceFired c =
     (case debounce_begin (timerInitialData c) (form c) of
        (s1, es, pending) \<Rightarrow>
          c\<lparr>form := s1,
            pendingNameChecks := (if pending then Suc (pendingNameChecks c)
                                  else pendingNameChecks c)\<rparr>)"
| "form_step (NameCheckSettled settled) c =
     (if pendingNameChecks c = 0 then c
      else c\<lparr>form := fst (checkNameDuplicate_resume settled (form c)),
             pendingNameChecks := pendingNameChecks c - 1\<rparr>)"
| "form_step SubmitRequested c =
     (case form_handleSubmit_begin (form c) of
        (s1, es, pending) \<Rightarrow>
          c\<lparr>form := s1,
            pendingSubmits := (if pending then Suc (pendingSubmits c) else pendingSubmits c)\<rparr>)"
| "form_step (SubmitSettled settled) c =
     (if pendingSubmits c = 0 then c
      else c\<lparr>form := fst (form_handleSubmit_resume settled (form c)),
             pendingSubmits := pendingSubmits c - 1\<rparr>)"
| "form_step AddAliasRequested c =
     (case handleAddAlias_begin (initialData_prop c) (form c) of
        (s1, es, pending) \<Rightarrow>
          c\<lparr>form := s1,
            pendingAliasChecks := (if pending then pendingAliasChecks c @ [newAlias (form c)]
                                   else pendingAliasChecks c)\<rparr>)"
| "form_step (AddAliasSettled k settled now) c =
     (if k < length (pendingAliasChecks c)
      then c\<lparr>form := fst (handleAddAlias_resume (pendingAliasChecks c ! k) settled now (form c)),
             pendingAliasChecks := take k (pendingAliasChecks c) @ drop (Suc k) (pendingAliasChecks c)\<rparr>
      else c)"
| "form_step (RemoveAliasRequested aliasId) c = c\<lparr>form := handleRemoveAlias aliasId (form c)\<rparr>"

definition mount_form :: "artist option \<Rightarrow> form_config" where
  "mount_form i =
     \<lparr>initialData_prop = i, timerInitialData = i, form = init_form i, pendingNameChecks = 0,
      pendingSubmits = 0, pendingAliasChecks = []\<rparr>"

definition run_form :: "artist option \<Rightarrow> form_event list \<Rightarrow> form_config" where
  "run_form i evs = fold form_step evs (mount_form i)"

text \<open>An event that binds the form to an existing artist, whose aliases it takes over.\<close>

fun loads_artist :: "form_event \<Rightarrow> bool" where
  "loads_artist (PropsChanged (Some _)) = True"
| "loads_artist _ = False"

text \<open>A name that is not empty and has no whitespace at either end.\<close>

definition trimmed_nonempty :: "jsstring \<Rightarrow> bool" where
  "trimmed_nonempty s \<longleftrightarrow> s \<noteq> [] \<and> \<not> is_ws (hd s) \<and> \<not> is_ws (last s)"

section \<open>The form wired to the page\<close>

text \<open>
  The page passes its \<open>handleSubmit\<close> as \<open>onSubmit\<close> and its \<open>handleCloseForm\<close> as
  \<open>onCancel\<close>. The page's \<open>handleSubmit\<close> catches every rejection, so the promise the
  form awaits always resolves.
\<close>

definition submit_through_page ::
  "unit outcome \<Rightarrow> artist list outcome \<Rightarrow> form_state \<times> page_state \<Rightarrow>
   (form_state \<times> page_state) \<times> effect list" where
  "submit_through_page saved fetched fp =
     (case fp of
        (f, p) \<Rightarrow>
          (case form_handleSubmit_begin f of
             (f1, es, pending) \<Rightarrow>
               if pending
               then (case page_handleSubmit (formData f) saved fetched p of
                       (p1, es1) \<Rightarrow>
                         (case form_handleSubmit_resume (Resolved ()) f1 of
                            (f2, es2) \<Rightarrow> ((f2, handleCloseForm p1), es @ es1 @ es2)))
               else ((f1, p), es)))"

section \<open>Invariants of the form's runs\<close>

text \<open>\<open>nameError\<close> is either \<open>null\<close> or a non-empty text.\<close>

definition nameError_wf :: "form_state \<Rightarrow> bool" where
  "nameError_wf s \<longleftrightarrow> nameError s \<noteq> Some []"

text \<open>
  Every alias has a trimmed, non-empty name, and every pending alias check has captured
  an input that passed the emptiness guard.
\<close>

definition aliases_wf :: "form_config \<Rightarrow> bool" where
  "aliases_wf c \<longleftrightarrow>
     list_all (\<lambda>a. trimmed_nonempty (alias_name a)) (aliases (formData (form c))) \<and>
     list_all (\<lambda>p. truthy (trim p)) (pendingAliasChecks c)"

text \<open>
  A run in which no second name check is started while one is still pending: whenever
  the debounce timer fires on a name that is not blank, so that it sends a request,
  nothing is pending.
\<close>

fun no_overlap :: "form_config \<Rightarrow> form_event list \<Rightarrow> bool" where
  "no_overlap c [] = True"
| "no_overlap c (e # es) =
     ((e = DebounceFired \<and> truthy (trim (name (formData (form c))))
         \<longrightarrow> pendingNameChecks c = 0) \<and>
      no_overlap (form_step e c) es)"

text \<open>At most one name check is pending, and while it is, \<open>isCheckingDuplicate\<close> is set.\<close>

definition single_check_inv :: "form_config \<Rightarrow> bool" where
  "single_check_inv c \<longleftrightarrow>
     pendingNameChecks c \<le> 1 \<and> (pendingNameChecks c = 1 \<longrightarrow> isCheckingDuplicate (form c))"

section \<open>Example values\<close>

definition ex_lee :: artist_alias where
  "ex_lee = \<lparr>alias_id = 7, alias_name = ascii ''Lee''\<rparr>"

definition ex_dlwlrma :: artist_alias where
  "ex_dlwlrma = \<lparr>alias_id = 8, alias_name = ascii ''dlwlrma''\<rparr>"

definition ex_artist :: artist where
  "ex_artist =
     \<lparr>name = ascii ''IU'', description = ascii ''singer'', aliases = [ex_lee, ex_dlwlrma],
      artist_id = 3\<rparr>"

definition ex_duplicate :: dup_result where
  "ex_duplicate = \<lparr>isDuplicate = True, duplicateType = ascii ''name'', duplicateName = ascii ''IU''\<rparr>"

definition ex_free :: dup_result where
  "ex_free = \<lparr>isDuplicate = False, duplicateType = [], duplicateName = []\<rparr>"

text \<open>A form in edit mode on the example artist, with \<open>Lee\<close> typed into the alias input.\<close>

definition ex_edit_form :: form_state where
  "ex_edit_form = (init_form (Some ex_artist))\<lparr>newAlias := ascii ''Lee''\<rparr>"

text \<open>The same form with \<open> Zico \<close>, surrounded by spaces, typed into the alias input.\<close>

definition ex_typing_form :: form_state where
  "ex_typing_form = (init_form (Some ex_artist))\<lparr>newAlias := ascii '' Zico ''\<rparr>"

definition ex_page :: page_state where
  "ex_page = init_page\<lparr>artists := [ex_artist], isLoading := False\<rparr>"

text \<open>
  Two name checks that overlap: the user types a name and a description, the timer fires,
  the user goes on typing, the timer fires again, and then the first request resolves
  with "no duplicate".
\<close>

definition ex_overlap :: "form_event list" where
  "ex_overlap =
     [NameChanged (ascii ''I''), DescriptionChanged (ascii ''singer''), DebounceFired,
      NameChanged (ascii ''IU''), DebounceFired, NameCheckSettled (Resolved ex_free)]"

text \<open>A check that finds the typed name taken.\<close>

definition ex_taken :: "form_event list" where
  "ex_taken =
     [NameChanged (ascii ''IU''), DescriptionChanged (ascii ''singer''), DebounceFired,
      NameCheckSettled (Resolved ex_duplicate)]"

text \<open>A check that is still in flight.\<close>

definition ex_checking :: "form_event list" where
  "ex_checking =
     [NameChanged (ascii ''IU''), DescriptionChanged (ascii ''singer''), DebounceFired]"

text \<open>
  A check in flight while the user replaces the name by a blank and the timer fires
  again, which sends no second request.
\<close>

definition ex_blanked :: "form_event list" where
  "ex_blanked =
     [NameChanged (ascii ''IU''), DescriptionChanged (ascii ''singer''), DebounceFired,
      NameChanged (ascii '' ''), DebounceFired]"

text \<open>Adding an alias typed with spaces around it, then removing an alias that is not there.\<close>

definition ex_alias_session :: "form_event list" where
  "ex_alias_session =
     [NewAliasChanged (ascii ''  Zico ''), AddAliasRequested,
      AddAliasSettled 0 (Resolved ex_free) 1700000000000, RemoveAliasRequested 5]"

section \<open>Unfolding rules for evaluation\<close>

lemmas string_defs =
  truthy_def truthy_opt_def or_else_def trim_def trimStart_def trimEnd_def ascii_def is_ws_def

lemmas form_defs =
  run_form_def mount_form_def init_form_def initialData_effect_def name_onChange_def
  description_onChange_def newAlias_onChange_def debounce_begin_def
  checkNameDuplicate_begin_def checkNameDuplicate_resume_def form_handleSubmit_def
  form_handleSubmit_begin_def form_handleSubmit_resume_def handleAddAlias_def
  handleAddAlias_begin_def handleAddAlias_resume_def handleRemoveAlias_def
  duplicate_message_def

lemmas example_defs =
  ex_lee_def ex_dlwlrma_def ex_artist_def ex_free_def ex_edit_form_def ex_typing_form_def
  ex_page_def

section \<open>Trimming\<close>

lemma trimEnd_Nil_iff: "trimEnd t = [] \<longleftrightarrow> (\<forall>c \<in> set t. is_ws c)"
  by (simp add: trimEnd_def dropWhile_eq_Nil_conv)

lemma trimStart_Nil_iff: "trimStart s = [] \<longleftrightarrow> (\<forall>c \<in> set s. is_ws c)"
  by (simp add: trimStart_def dropWhile_eq_Nil_conv)

lemma trimStart_hd: "trimStart s \<noteq> [] \<Longrightarrow> \<not> is_ws (hd (trimStart s))"
  unfolding trimStart_def by (rule hd_dropWhile)

lemma trimEnd_last: "trimEnd t \<noteq> [] \<Longrightarrow> \<not> is_ws (last (trimEnd t))"
proof -
  assume ne: "trimEnd t \<noteq> []"
  then have "dropWhile is_ws (rev t) \<noteq> []" by (simp add: trimEnd_def)
  then have "\<not> is_ws (hd (dropWhile is_ws (rev t)))" by (rule hd_dropWhile)
  then show ?thesis by (simp add: trimEnd_def last_rev)
qed

lemma trimEnd_hd: "trimEnd t \<noteq> [] \<Longrightarrow> hd (trimEnd t) = hd t"
  by (metis (no_types, lifting) dropWhile_eq_Nil_conv dropWhile_last
      last_rev rev.simps(1) rev_rev_ident trimEnd_def)

lemma trim_Nil_iff: "trim s = [] \<longleftrightarrow> (\<forall>c \<in> set s. is_ws c)"
proof
  assume "trim s = []"
  then have all: "\<forall>c \<in> set (trimStart s). is_ws c"
    by (simp add: trim_def trimEnd_Nil_iff)
  have "trimStart s = []"
  proof (rule ccontr)
    assume ne: "trimStart s \<noteq> []"
    then have "\<not> is_ws (hd (trimStart s))" by (rule trimStart_hd)
    moreover from ne have "hd (trimStart s) \<in> set (trimStart s)" by simp
    ultimately show False using all by blast
  qed
  then show "\<forall>c \<in> set s. is_ws c" by (simp add: trimStart_Nil_iff)
next
  assume "\<forall>c \<in> set s. is_ws c"
  then have "trimStart s = []" by (simp add: trimStart_Nil_iff)
  then show "trim s = []" by (simp add: trim_def trimEnd_def)
qed

lemma trim_trimmed: "truthy (trim s) \<Longrightarrow> trimmed_nonempty (trim s)"
proof -
  assume "truthy (trim s)"
  then have ne: "trimEnd (trimStart s) \<noteq> []" by (simp add: truthy_def trim_def)
  then have "trimStart s \<noteq> []" by (auto simp: trimEnd_def)
  then have "\<not> is_ws (hd (trimStart s))" by (rule trimStart_hd)
  with ne have "\<not> is_ws (hd (trimEnd (trimStart s)))" by (simp add: trimEnd_hd)
  moreover from ne have "\<not> is_ws (last (trimEnd (trimStart s)))" by (rule trimEnd_last)
  ultimately show ?thesis using ne by (simp add: trimmed_nonempty_def trim_def)
qed

section \<open>Every error text is non-empty\<close>

lemma duplicate_message_nonempty: "duplicate_message r \<noteq> []"
  by (simp add: duplicate_message_def)

lemma msg_check_failed_nonempty: "msg_check_failed \<noteq> []"
  by (simp add: msg_check_failed_def)

lemma form_step_nameError_wf: "nameError_wf (form c) \<Longrightarrow> nameError_wf (form (form_step e c))"
  by (cases e)
     (auto simp: nameError_wf_def initialData_effect_def name_onChange_def
        description_onChange_def newAlias_onChange_def debounce_begin_def
        checkNameDuplicate_begin_def checkNameDuplicate_resume_def form_handleSubmit_begin_def
        form_handleSubmit_resume_def handleAddAlias_begin_def handleAddAlias_resume_def
        handleRemoveAlias_def Let_def duplicate_message_nonempty msg_check_failed_nonempty
        split: outcome.splits if_splits prod.splits)

lemma fold_nameError_wf:
  "nameError_wf (form c) \<Longrightarrow> nameError_wf (form (fold form_step evs c))"
  by (induction evs arbitrary: c) (simp_all add: form_step_nameError_wf)

lemma run_form_nameError_wf: "nameError_wf (form (run_form i evs))"
  unfolding run_form_def
  by (rule fold_nameError_wf) (simp add: nameError_wf_def mount_form_def init_form_def)

section \<open>Name checks that do not overlap\<close>

lemma form_step_single_check:
  assumes "single_check_inv c"
    and "e = DebounceFired \<and> truthy (trim (name (formData (form c))))
           \<longrightarrow> pendingNameChecks c = 0"
  shows "single_check_inv (form_step e c)"
  using assms
  by (cases e)
     (auto simp: single_check_inv_def initialData_effect_def name_onChange_def
        description_onChange_def newAlias_onChange_def debounce_begin_def
        checkNameDuplicate_begin_def checkNameDuplicate_resume_def form_handleSubmit_begin_def
        form_handleSubmit_resume_def handleAddAlias_begin_def handleAddAlias_resume_def
        handleRemoveAlias_def Let_def
        split: outcome.splits if_splits prod.splits)

lemma fold_single_check:
  "single_check_inv c \<Longrightarrow> no_overlap c evs \<Longrightarrow> single_check_inv (fold form_step evs c)"
  by (induction evs arbitrary: c) (simp_all add: form_step_single_check)

lemma run_single_check:
  "no_overlap (mount_form i) evs \<Longrightarrow> single_check_inv (run_form i evs)"
  unfolding run_form_def
  by (rule fold_single_check) (simp_all add: single_check_inv_def mount_form_def)

section \<open>Alias names stay trimmed\<close>

lemma list_all_take: "list_all P xs \<Longrightarrow> list_all P (take k xs)"
  by (auto simp: list_all_iff dest: in_set_takeD)

lemma list_all_drop: "list_all P xs \<Longrightarrow> list_all P (drop k xs)"
  by (auto simp: list_all_iff dest: in_set_dropD)

lemma resume_aliases_wf:
  assumes "list_all (\<lambda>a. trimmed_nonempty (alias_name a)) (aliases (formData s))"
    and "truthy (trim captured)"
  shows "list_all (\<lambda>a. trimmed_nonempty (alias_name a))
           (aliases (formData (fst (handleAddAlias_resume captured settled now s))))"
  using assms
  by (auto simp: handleAddAlias_resume_def Let_def trim_trimmed split: outcome.splits)

lemma form_step_aliases_wf:
  assumes "aliases_wf c" and "\<not> loads_artist e"
  shows "aliases_wf (form_step e c)"
proof (cases e)
  case (PropsChanged i)
  with assms show ?thesis
    by (cases i) (simp_all add: aliases_wf_def initialData_effect_def)
next
  case (AddAliasSettled k settled now)
  show ?thesis
  proof (cases "k < length (pendingAliasChecks c)")
    case True
    with assms have "truthy (trim (pendingAliasChecks c ! k))"
      by (simp add: aliases_wf_def list_all_length)
    with assms True AddAliasSettled show ?thesis
      by (simp add: aliases_wf_def resume_aliases_wf list_all_take list_all_drop)
  next
    case False
    with assms AddAliasSettled show ?thesis by simp
  qed
next
  case AddAliasRequested
  with assms show ?thesis
    by (auto simp: aliases_wf_def handleAddAlias_begin_def split: if_splits)
qed (use assms in \<open>auto simp: aliases_wf_def name_onChange_def description_onChange_def
        newAlias_onChange_def debounce_begin_def checkNameDuplicate_begin_def
        checkNameDuplicate_resume_def form_handleSubmit_begin_def form_handleSubmit_resume_def
        handleRemoveAlias_def Let_def list_all_iff
        split: outcome.splits if_splits prod.splits\<close>)

lemma fold_aliases_wf:
  "aliases_wf c \<Longrightarrow> list_all (\<lambda>e. \<not> loads_artist e) evs \<Longrightarrow> aliases_wf (fold form_step evs c)"
  by (induction evs arbitrary: c) (simp_all add: form_step_aliases_wf)

section \<open>What a name error does gate\<close>

text \<open>
  In every state the form reaches, a non-null \<open>nameError\<close> is a non-empty text, so
  \<open>handleSubmit\<close> stops at the alert and the submit button is disabled; the button is
  also disabled whenever \<open>isCheckingDuplicate\<close> is set, and in a run in which no second
  name check is started while one is pending, whenever a name check is in flight.
\<close>

lemma name_error_gates_submission:
  assumes "c = run_form i evs" and "s = form c"
  shows "(nameError s \<noteq> None \<longrightarrow>
            form_handleSubmit settled s = (s, [PreventDefault, Alert msg_alert_duplicate]) \<and>
            (\<forall>d. OnSubmit d \<notin> set (snd (form_handleSubmit settled s)))) \<and>
         (nameError s \<noteq> None \<or> isCheckingDuplicate s \<longrightarrow> submit_disabled s) \<and>
         (no_overlap (mount_form i) evs \<and> 0 < pendingNameChecks c \<longrightarrow> submit_disabled s)"
proof -
  have "nameError_wf s"
    using assms by (simp add: run_form_nameError_wf)
  then have t: "nameError s \<noteq> None \<Longrightarrow> truthy_opt (nameError s)"
    by (auto simp: nameError_wf_def truthy_opt_def truthy_def split: option.splits)
  have gate: "nameError s \<noteq> None \<longrightarrow>
            form_handleSubmit settled s = (s, [PreventDefault, Alert msg_alert_duplicate]) \<and>
            (\<forall>d. OnSubmit d \<notin> set (snd (form_handleSubmit settled s)))"
    using t by (auto simp: form_handleSubmit_def form_handleSubmit_begin_def)
  have button: "nameError s \<noteq> None \<or> isCheckingDuplicate s \<longrightarrow> submit_disabled s"
    using t by (auto simp: submit_disabled_def)
  have flight: "no_overlap (mount_form i) evs \<and> 0 < pendingNameChecks c \<longrightarrow> submit_disabled s"
  proof
    assume h: "no_overlap (mount_form i) evs \<and> 0 < pendingNameChecks c"
    then have "single_check_inv c"
      using assms by (simp add: run_single_check)
    with h have "isCheckingDuplicate (form c)"
      by (auto simp: single_check_inv_def)
    with assms show "submit_disabled s"
      by (simp add: submit_disabled_def)
  qed
  from gate button flight show ?thesis by blast
qed

lemma name_error_gates_submission_example:
  "nameError (form (run_form None ex_taken)) \<noteq> None \<and>
   form_handleSubmit (Resolved ()) (form (run_form None ex_taken)) =
     (form (run_form None ex_taken), [PreventDefault, Alert msg_alert_duplicate]) \<and>
   submit_disabled (form (run_form None ex_taken)) \<and>
   no_overlap (mount_form None) ex_checking \<and>
   0 < pendingNameChecks (run_form None ex_checking) \<and>
   nameError (form (run_form None ex_checking)) = None \<and>
   submit_disabled (form (run_form None ex_checking)) \<and>
   no_overlap (mount_form None) ex_blanked"
proof -
  have a: "nameError (form (run_form None ex_taken)) \<noteq> None"
    by (simp add: ex_taken_def ex_duplicate_def form_defs string_defs)
  have b: "no_overlap (mount_form None) ex_checking \<and>
           0 < pendingNameChecks (run_form None ex_checking) \<and>
           nameError (form (run_form None ex_checking)) = None"
    by (simp add: ex_checking_def form_defs string_defs)
  have c: "no_overlap (mount_form None) ex_blanked"
    by (simp add: ex_blanked_def form_defs string_defs)
  from a b c
    name_error_gates_submission [OF refl refl, of None ex_taken "Resolved ()"]
    name_error_gates_submission [OF refl refl, of None ex_checking "Resolved ()"]
  show ?thesis by blast
qed

section \<open>Saving, seen from the page and from the form\<close>

text \<open>
  The page's \<open>handleSubmit\<close> by itself: the request to the API client comes first; a
  refetch and the closing of the form follow only when it succeeds; when it fails the
  error is logged and the page state stays as it is.
\<close>

lemma page_handleSubmit_order:
  assumes "page_handleSubmit data saved fetched s = (s', es)"
  shows "es \<noteq> [] \<and>
         hd es = (case editingArtist s of
                    Some a \<Rightarrow> UpdateArtist (artist_id a) data
                  | None \<Rightarrow> CreateArtist data) \<and>
         (saved = Resolved () \<longrightarrow>
            (\<exists>rest. es = hd es # FetchArtists # rest) \<and>
            s' = handleCloseForm (fst (loadArtists fetched s)) \<and>
            \<not> isFormOpen s' \<and> editingArtist s' = None) \<and>
         (\<forall>err. saved = Rejected err \<longrightarrow>
            es = [hd es, ConsoleError [ascii ''Error saving artist:'', err]] \<and>
            FetchArtists \<notin> set es \<and> s' = s)"
  using assms
  by (auto simp: page_handleSubmit_def loadArtists_def handleCloseForm_def Let_def
        split: outcome.splits option.splits)

text \<open>
  Wired to the page, the form's \<open>onSubmit\<close> never rejects: when the save fails the page
  logs the error and returns, the awaited promise resolves, and the form goes on to call
  \<open>onCancel\<close>, which is the page's \<open>handleCloseForm\<close>.
\<close>

lemma failed_save_still_closes_form:
  assumes "\<not> truthy_opt (nameError f)"
  shows "snd (submit_through_page (Rejected err) fetched (f, p)) =
            [PreventDefault, OnSubmit (formData f),
             (case editingArtist p of
                Some a \<Rightarrow> UpdateArtist (artist_id a) (formData f)
              | None \<Rightarrow> CreateArtist (formData f)),
             ConsoleError [ascii ''Error saving artist:'', err], OnCancel] \<and>
         \<not> isFormOpen (snd (fst (submit_through_page (Rejected err) fetched (f, p))))"
  using assms
  by (simp add: submit_through_page_def form_handleSubmit_begin_def
      form_handleSubmit_resume_def page_handleSubmit_def handleCloseForm_def Let_def)

section \<open>The claims\<close>

subsection \<open>C1: a name error gates submission\<close>

text \<open>
  Claim C1: in every form state in which the duplicate-name check has set a name error
  (\<open>nameError\<close> is non-null), submitting does not call \<open>onSubmit\<close>, and the submit
  button is disabled whenever \<open>nameError\<close> is set or a duplicate check is in flight.
  The code sets \<open>isCheckingDuplicate\<close> before each request and clears it when that
  request settles, and the button reads the flag; but the flag is one boolean for all
  requests. In the run \<open>ex_overlap\<close> the user types a name and a description, the timer
  fires, the user types on, the timer fires again, and the first request resolves with
  "no duplicate": the flag is cleared while the second check is still in flight, the
  button is enabled, and a submission calls \<open>onSubmit\<close>.
\<close>

theorem overlapping_checks_enable_submit:
  "pendingNameChecks (run_form None ex_overlap) = 1 \<and>
   \<not> isCheckingDuplicate (form (run_form None ex_overlap)) \<and>
   \<not> submit_disabled (form (run_form None ex_overlap)) \<and>
   snd (form_handleSubmit (Resolved ()) (form (run_form None ex_overlap))) =
     [PreventDefault,
      OnSubmit \<lparr>name = ascii ''IU'', description = ascii ''singer'', aliases = []\<rparr>,
      OnCancel]"
  by (simp add: ex_overlap_def submit_disabled_def form_defs string_defs example_defs)

theorem overlapping_checks_enable_submit_witness:
  "0 < pendingNameChecks (run_form None ex_overlap) \<and>
   \<not> submit_disabled (form (run_form None ex_overlap))"
  using overlapping_checks_enable_submit by simp

subsection \<open>C2: what decides whether an alias is added\<close>

text \<open>
  Claim C2, as stated: whether an entered alias name is added is decided solely by the
  result of the remote \<open>checkArtistDuplicate\<close> call, with no local check against the
  aliases already in the form. The code does check locally first. With the same input
  \<open>Lee\<close> and the same remote answer "no duplicate", the form that already holds an alias
  \<open>Lee\<close> sets \<open>aliasError\<close>, adds nothing and sends no request, while the form without
  aliases sends the request and adds the alias.
\<close>

theorem add_alias_checks_locally_first:
  "handleAddAlias (Some ex_artist) (Resolved ex_free) 1700000000000 ex_edit_form =
     (ex_edit_form\<lparr>aliasError := Some msg_already_added\<rparr>, []) \<and>
   aliases (formData (fst (handleAddAlias (Some ex_artist) (Resolved ex_free) 1700000000000
      (ex_edit_form\<lparr>formData := (formData ex_edit_form)\<lparr>aliases := []\<rparr>\<rparr>)))) =
     [\<lparr>alias_id = 1700000000000, alias_name = ascii ''Lee''\<rparr>] \<and>
   snd (handleAddAlias (Some ex_artist) (Resolved ex_free) 1700000000000
      (ex_edit_form\<lparr>formData := (formData ex_edit_form)\<lparr>aliases := []\<rparr>\<rparr>)) =
     [CheckArtistDuplicate (ascii ''Lee'') (Some 3)]"
  by (simp add: form_defs string_defs example_defs)

text \<open>
  Claim C2, amended: whether an alias is added is decided by two local tests and the
  remote call. At the call, \<open>handleAddAlias\<close> does nothing when the trimmed input is
  empty; when an alias already in the form has the trimmed input as its name, it sets
  \<open>aliasError\<close> to the "already added" text and makes no remote call; otherwise it sets
  \<open>isCheckingAliasDuplicate\<close> and calls \<open>checkArtistDuplicate\<close> with the trimmed input
  and \<open>initialData?.id\<close>, and does nothing else. When that call settles: resolved with
  \<open>isDuplicate\<close> false, the alias with id \<open>Date.now()\<close> and the trimmed input as name is
  appended to the alias list as it is at that moment, without a second local test, and
  the input and \<open>aliasError\<close> are cleared; resolved with \<open>isDuplicate\<close> true,
  \<open>aliasError\<close> becomes the duplicate message; rejected, \<open>aliasError\<close> becomes the
  failure message and the error is logged; in the last two cases the form data is
  unchanged, and in all three \<open>isCheckingAliasDuplicate\<close> is cleared and no further
  request is sent. So, with nothing happening in between, the alias is appended exactly
  when the trimmed input is non-empty, no alias in the form has that name and the remote
  call resolves with \<open>isDuplicate\<close> false, and otherwise the alias list is unchanged.
\<close>

theorem add_alias_decision:
  "(\<not> truthy (trim (newAlias s)) \<longrightarrow> handleAddAlias_begin i s = (s, [], False)) \<and>
   (truthy (trim (newAlias s)) \<and>
    (\<exists>a \<in> set (aliases (formData s)). alias_name a = trim (newAlias s)) \<longrightarrow>
      handleAddAlias_begin i s = (s\<lparr>aliasError := Some msg_already_added\<rparr>, [], False)) \<and>
   (truthy (trim (newAlias s)) \<and>
    \<not> (\<exists>a \<in> set (aliases (formData s)). alias_name a = trim (newAlias s)) \<longrightarrow>
      handleAddAlias_begin i s =
        (s\<lparr>isCheckingAliasDuplicate := True\<rparr>,
         [CheckArtistDuplicate (trim (newAlias s)) (map_option artist_id i)], True)) \<and>
   (\<forall>r. settled = Resolved r \<and> \<not> isDuplicate r \<longrightarrow>
      handleAddAlias_resume captured settled now u =
        (u\<lparr>formData := (formData u)
               \<lparr>aliases := aliases (formData u) @ [\<lparr>alias_id = now, alias_name = trim captured\<rparr>]\<rparr>,
           newAlias := [], aliasError := None, isCheckingAliasDuplicate := False\<rparr>, [])) \<and>
   (\<forall>r. settled = Resolved r \<and> isDuplicate r \<longrightarrow>
      handleAddAlias_resume captured settled now u =
        (u\<lparr>aliasError := Some (duplicate_message r), isCheckingAliasDuplicate := False\<rparr>, [])) \<and>
   (\<forall>err. settled = Rejected err \<longrightarrow>
      handleAddAlias_resume captured settled now u =
        (u\<lparr>aliasError := Some msg_check_failed, isCheckingAliasDuplicate := False\<rparr>,
         [ConsoleError [ascii ''Error checking alias duplicate:'', err]])) \<and>
   handleAddAlias i settled now s =
     (if snd (snd (handleAddAlias_begin i s))
      then (fst (handleAddAlias_resume (newAlias s) settled now (fst (handleAddAlias_begin i s))),
            fst (snd (handleAddAlias_begin i s)) @
            snd (handleAddAlias_resume (newAlias s) settled now (fst (handleAddAlias_begin i s))))
      else (fst (handleAddAlias_begin i s), fst (snd (handleAddAlias_begin i s)))) \<and>
   (aliases (formData (fst (handleAddAlias i settled now s)))
      = aliases (formData s) @ [\<lparr>alias_id = now, alias_name = trim (newAlias s)\<rparr>]
    \<longleftrightarrow> truthy (trim (newAlias s)) \<and>
        \<not> (\<exists>a \<in> set (aliases (formData s)). alias_name a = trim (newAlias s)) \<and>
        (\<exists>r. settled = Resolved r \<and> \<not> isDuplicate r)) \<and>
   (aliases (formData (fst (handleAddAlias i settled now s)))
      \<noteq> aliases (formData s) @ [\<lparr>alias_id = now, alias_name = trim (newAlias s)\<rparr>]
    \<longrightarrow> aliases (formData (fst (handleAddAlias i settled now s))) = aliases (formData s))"
proof -
  have hit: "list_ex (\<lambda>alias. alias_name alias = trim (newAlias s)) (aliases (formData s))
             \<longleftrightarrow> (\<exists>a \<in> set (aliases (formData s)). alias_name a = trim (newAlias s))"
    by (simp add: list_ex_iff)
  have at_call: "(\<not> truthy (trim (newAlias s)) \<longrightarrow> handleAddAlias_begin i s = (s, [], False)) \<and>
   (truthy (trim (newAlias s)) \<and>
    (\<exists>a \<in> set (aliases (formData s)). alias_name a = trim (newAlias s)) \<longrightarrow>
      handleAddAlias_begin i s = (s\<lparr>aliasError := Some msg_already_added\<rparr>, [], False)) \<and>
   (truthy (trim (newAlias s)) \<and>
    \<not> (\<exists>a \<in> set (aliases (formData s)). alias_name a = trim (newAlias s)) \<longrightarrow>
      handleAddAlias_begin i s =
        (s\<lparr>isCheckingAliasDuplicate := True\<rparr>,
         [CheckArtistDuplicate (trim (newAlias s)) (map_option artist_id i)], True))"
    using hit by (simp add: handleAddAlias_begin_def)
  have at_settle: "(\<forall>r. settled = Resolved r \<and> \<not> isDuplicate r \<longrightarrow>
      handleAddAlias_resume captured settled now u =
        (u\<lparr>formData := (formData u)
               \<lparr>aliases := aliases (formData u) @ [\<lparr>alias_id = now, alias_name = trim captured\<rparr>]\<rparr>,
           newAlias := [], aliasError := None, isCheckingAliasDuplicate := False\<rparr>, [])) \<and>
   (\<forall>r. settled = Resolved r \<and> isDuplicate r \<longrightarrow>
      handleAddAlias_resume captured settled now u =
        (u\<lparr>aliasError := Some (duplicate_message r), isCheckingAliasDuplicate := False\<rparr>, [])) \<and>
   (\<forall>err. settled = Rejected err \<longrightarrow>
      handleAddAlias_resume captured settled now u =
        (u\<lparr>aliasError := Some msg_check_failed, isCheckingAliasDuplicate := False\<rparr>,
         [ConsoleError [ascii ''Error checking alias duplicate:'', err]]))"
    by (simp add: handleAddAlias_resume_def Let_def)
  have whole: "handleAddAlias i settled now s =
     (if snd (snd (handleAddAlias_begin i s))
      then (fst (handleAddAlias_resume (newAlias s) settled now (fst (handleAddAlias_begin i s))),
            fst (snd (handleAddAlias_begin i s)) @
            snd (handleAddAlias_resume (newAlias s) settled now (fst (handleAddAlias_begin i s))))
      else (fst (handleAddAlias_begin i s), fst (snd (handleAddAlias_begin i s))))"
    by (simp add: handleAddAlias_def split: prod.splits)
  have added: "(aliases (formData (fst (handleAddAlias i settled now s)))
      = aliases (formData s) @ [\<lparr>alias_id = now, alias_name = trim (newAlias s)\<rparr>]
    \<longleftrightarrow> truthy (trim (newAlias s)) \<and>
        \<not> (\<exists>a \<in> set (aliases (formData s)). alias_name a = trim (newAlias s)) \<and>
        (\<exists>r. settled = Resolved r \<and> \<not> isDuplicate r)) \<and>
   (aliases (formData (fst (handleAddAlias i settled now s)))
      \<noteq> aliases (formData s) @ [\<lparr>alias_id = now, alias_name = trim (newAlias s)\<rparr>]
    \<longrightarrow> aliases (formData (fst (handleAddAlias i settled now s))) = aliases (formData s))"
    using hit
    by (auto simp: handleAddAlias_def handleAddAlias_begin_def handleAddAlias_resume_def Let_def
          split: outcome.splits if_splits)
  from at_call at_settle whole added show ?thesis by blast
qed

text \<open>
  The theorem at work: \<open> Zico \<close> typed into a form that holds two other aliases is
  checked remotely and appended; and a continuation that settles on a form which by then
  holds \<open>Zico\<close> appends it a second time.
\<close>

theorem add_alias_decision_witness:
  "truthy (trim (newAlias ex_typing_form)) \<and>
   \<not> (\<exists>a \<in> set (aliases (formData ex_typing_form)).
         alias_name a = trim (newAlias ex_typing_form)) \<and>
   trim (newAlias ex_typing_form) = ascii ''Zico'' \<and>
   handleAddAlias_begin (Some ex_artist) ex_typing_form =
     (ex_typing_form\<lparr>isCheckingAliasDuplicate := True\<rparr>,
      [CheckArtistDuplicate (trim (newAlias ex_typing_form))
         (map_option artist_id (Some ex_artist))], True) \<and>
   aliases (formData (fst (handleAddAlias (Some ex_artist) (Resolved ex_free) 1700000000000
      ex_typing_form))) =
     aliases (formData ex_typing_form) @
       [\<lparr>alias_id = 1700000000000, alias_name = trim (newAlias ex_typing_form)\<rparr>] \<and>
   aliases (formData (fst (handleAddAlias (Some ex_artist) (Resolved ex_free) 1700000000000
      ex_typing_form))) =
     [ex_lee, ex_dlwlrma, \<lparr>alias_id = 1700000000000, alias_name = ascii ''Zico''\<rparr>] \<and>
   handleAddAlias_resume (ascii '' Zico '') (Resolved ex_free) 1700000000001
      (fst (handleAddAlias (Some ex_artist) (Resolved ex_free) 1700000000000 ex_typing_form)) =
     (fst (handleAddAlias (Some ex_artist) (Resolved ex_free) 1700000000000 ex_typing_form)
        \<lparr>formData := (formData (fst (handleAddAlias (Some ex_artist) (Resolved ex_free)
             1700000000000 ex_typing_form)))
           \<lparr>aliases := aliases (formData (fst (handleAddAlias (Some ex_artist)
               (Resolved ex_free) 1700000000000 ex_typing_form))) @
               [\<lparr>alias_id = 1700000000001, alias_name = trim (ascii '' Zico '')\<rparr>]\<rparr>,
          newAlias := [], aliasError := None, isCheckingAliasDuplicate := False\<rparr>, []) \<and>
   aliases (formData (fst (handleAddAlias_resume (ascii '' Zico '') (Resolved ex_free)
      1700000000001
      (fst (handleAddAlias (Some ex_artist) (Resolved ex_free) 1700000000000 ex_typing_form))))) =
     [ex_lee, ex_dlwlrma, \<lparr>alias_id = 1700000000000, alias_name = ascii ''Zico''\<rparr>,
      \<lparr>alias_id = 1700000000001, alias_name = ascii ''Zico''\<rparr>]"
proof -
  have a: "truthy (trim (newAlias ex_typing_form)) \<and>
           \<not> (\<exists>a \<in> set (aliases (formData ex_typing_form)).
                alias_name a = trim (newAlias ex_typing_form)) \<and>
           trim (newAlias ex_typing_form) = ascii ''Zico''"
    by (simp add: form_defs string_defs example_defs)
  have b: "Resolved ex_free = Resolved ex_free \<and> \<not> isDuplicate ex_free"
    by (simp add: example_defs)
  have c: "aliases (formData (fst (handleAddAlias (Some ex_artist) (Resolved ex_free)
      1700000000000 ex_typing_form))) =
     [ex_lee, ex_dlwlrma, \<lparr>alias_id = 1700000000000, alias_name = ascii ''Zico''\<rparr>]"
    by (simp add: form_defs string_defs example_defs)
  have d: "aliases (formData (fst (handleAddAlias_resume (ascii '' Zico '') (Resolved ex_free)
      1700000000001
      (fst (handleAddAlias (Some ex_artist) (Resolved ex_free) 1700000000000 ex_typing_form))))) =
     [ex_lee, ex_dlwlrma, \<lparr>alias_id = 1700000000000, alias_name = ascii ''Zico''\<rparr>,
      \<lparr>alias_id = 1700000000001, alias_name = ascii ''Zico''\<rparr>]"
    by (simp add: form_defs string_defs example_defs)
  from a b c d
    add_alias_decision
      [of ex_typing_form "Some ex_artist" "Resolved ex_free" "ascii '' Zico ''" 1700000000000
          ex_typing_form]
    add_alias_decision
      [of ex_typing_form "Some ex_artist" "Resolved ex_free" "ascii '' Zico ''" 1700000000001
          "fst (handleAddAlias (Some ex_artist) (Resolved ex_free) 1700000000000 ex_typing_form)"]
  show ?thesis by blast
qed

subsection \<open>C3: the page loads the list once on mount\<close>

text \<open>
  Claim C3: on mount the page fetches the artist list exactly once. When \<open>fetchArtists\<close>
  resolves, \<open>artists\<close> is the returned list and \<open>error\<close> is cleared, and the page renders
  the table with one row per returned artist; when it rejects, an error message is set
  instead (the list keeps its value) and the page renders the error box. In both cases
  \<open>isLoading\<close> is cleared.
\<close>

theorem mount_loads_artists_once:
  "artists (fst (loadArtists (Resolved data) s)) = data \<and>
   error (fst (loadArtists (Resolved data) s)) = None \<and>
   \<not> isLoading (fst (loadArtists (Resolved data) s)) \<and>
   error (fst (loadArtists (Rejected err) s)) = Some (ascii ''Failed to load artists'') \<and>
   artists (fst (loadArtists (Rejected err) s)) = artists s \<and>
   \<not> isLoading (fst (loadArtists (Rejected err) s)) \<and>
   count_list (snd (mount fetched)) FetchArtists = 1 \<and>
   render (fst (mount (Resolved data))) = ListView (map row_of data) None False None \<and>
   render (fst (mount (Rejected err))) = ErrorView (ascii ''Failed to load artists'')"
  by (cases fetched)
     (simp_all add: loadArtists_def mount_def init_page_def render_def list_view_def
        truthy_def ascii_def)

theorem mount_loads_artists_once_witness:
  "fst (mount (Resolved [ex_artist])) = ex_page \<and>
   snd (mount (Resolved [ex_artist])) = [FetchArtists] \<and>
   render (fst (mount (Resolved [ex_artist]))) =
     ListView [TableRow 3 (ascii ''IU'') (ascii ''singer'') [ascii ''Lee'', ascii ''dlwlrma'']]
       None False None \<and>
   render (fst (mount (Rejected (ascii ''offline'')))) =
     ErrorView (ascii ''Failed to load artists'')"
  using mount_loads_artists_once
    [of "[ex_artist]" init_page "ascii ''offline''" "Resolved [ex_artist]"]
  by (simp add: mount_def loadArtists_def init_page_def row_of_def example_defs)

subsection \<open>C4: the page saves first, then refetches and closes the form\<close>

text \<open>
  Claim C4: for every create or edit submission from the form, the page first calls the
  API client and, only after that call succeeds, refetches the list and closes the form;
  on failure no refetch is triggered and the form is not closed by the page. The code
  keeps the order and triggers no refetch on failure, but it does close the form: the
  page's \<open>handleSubmit\<close> catches the rejection and returns, so the promise the form
  awaits resolves and the form calls \<open>onCancel\<close>, which is the page's
  \<open>handleCloseForm\<close>. Below, a create submission from an open form whose
  \<open>createArtist\<close> call rejects: no refetch, and the form ends closed.
\<close>

theorem failed_save_closes_form:
  "isFormOpen (ex_page\<lparr>isFormOpen := True\<rparr>) \<and>
   snd (submit_through_page (Rejected (ascii ''offline'')) (Resolved [ex_artist])
          (ex_edit_form, ex_page\<lparr>isFormOpen := True\<rparr>)) =
     [PreventDefault, OnSubmit (formData ex_edit_form), CreateArtist (formData ex_edit_form),
      ConsoleError [ascii ''Error saving artist:'', ascii ''offline''], OnCancel] \<and>
   snd (fst (submit_through_page (Rejected (ascii ''offline'')) (Resolved [ex_artist])
          (ex_edit_form, ex_page\<lparr>isFormOpen := True\<rparr>))) = ex_page"
  by (simp add: submit_through_page_def form_handleSubmit_begin_def
      form_handleSubmit_resume_def page_handleSubmit_def handleCloseForm_def init_page_def
      string_defs init_form_def example_defs)

subsection \<open>C5: deletion is gated by the confirmation\<close>

text \<open>
  Claim C5: \<open>handleDelete\<close> calls \<open>deleteArtist(id)\<close> if and only if the user confirms
  the dialog. After a successful delete it refetches the list, so the page state is what
  \<open>loadArtists\<close> leaves. When the user declines it makes no API call and the page state
  is unchanged.
\<close>

theorem delete_needs_confirmation:
  assumes "handleDelete artistId confirmed deleted fetched s = (s', es)"
  shows "(DeleteArtist artistId \<in> set es \<longleftrightarrow> confirmed) \<and>
         (confirmed \<and> deleted = Resolved () \<longrightarrow>
            (\<exists>rest. es = [Confirm msg_confirm_delete, DeleteArtist artistId, FetchArtists] @ rest) \<and>
            s' = fst (loadArtists fetched s)) \<and>
         (\<not> confirmed \<longrightarrow> \<not> list_ex is_api_call es \<and> s' = s)"
  using assms
  by (auto simp: handleDelete_def loadArtists_def split: outcome.splits if_splits)

theorem delete_needs_confirmation_witness:
  "handleDelete 3 True (Resolved ()) (Resolved []) ex_page =
     (ex_page\<lparr>artists := []\<rparr>, [Confirm msg_confirm_delete, DeleteArtist 3, FetchArtists]) \<and>
   handleDelete 3 False (Resolved ()) (Resolved []) ex_page =
     (ex_page, [Confirm msg_confirm_delete])"
proof -
  have a: "handleDelete 3 True (Resolved ()) (Resolved []) ex_page =
     (ex_page\<lparr>artists := []\<rparr>, [Confirm msg_confirm_delete, DeleteArtist 3, FetchArtists])"
    by (simp add: handleDelete_def loadArtists_def init_page_def example_defs)
  have b: "handleDelete 3 False (Resolved ()) (Resolved []) ex_page =
     (ex_page, [Confirm msg_confirm_delete])"
    by (simp add: handleDelete_def)
  from a b delete_needs_confirmation [OF a] delete_needs_confirmation [OF b]
  show ?thesis by blast
qed

subsection \<open>C6: the alias list keeps its order\<close>

text \<open>
  Claim C6: \<open>handleAddAlias\<close> appends the new alias at the end of the existing list: the
  old list is a prefix of the new one, and when the list changes it is the old list
  followed by the one new alias. This holds for the handler run in one go and for its
  continuation applied to whatever list the form holds when the check settles.
  \<open>handleRemoveAlias\<close> keeps the remaining aliases in their relative order: the new list
  is a subsequence of the old one.
\<close>

theorem alias_list_order:
  "prefix (aliases (formData s)) (aliases (formData (fst (handleAddAlias i settled now s)))) \<and>
   (aliases (formData (fst (handleAddAlias i settled now s))) \<noteq> aliases (formData s) \<longrightarrow>
      aliases (formData (fst (handleAddAlias i settled now s)))
        = aliases (formData s) @ [\<lparr>alias_id = now, alias_name = trim (newAlias s)\<rparr>]) \<and>
   prefix (aliases (formData s))
     (aliases (formData (fst (handleAddAlias_resume captured settled now s)))) \<and>
   (aliases (formData (fst (handleAddAlias_resume captured settled now s)))
      \<noteq> aliases (formData s) \<longrightarrow>
      aliases (formData (fst (handleAddAlias_resume captured settled now s)))
        = aliases (formData s) @ [\<lparr>alias_id = now, alias_name = trim captured\<rparr>]) \<and>
   subseq (aliases (formData (handleRemoveAlias aliasId s))) (aliases (formData s))"
  by (auto simp: handleAddAlias_def handleAddAlias_begin_def handleAddAlias_resume_def
        handleRemoveAlias_def Let_def split: outcome.splits if_splits)

theorem alias_list_order_witness:
  "aliases (formData (fst (handleAddAlias (Some ex_artist) (Resolved ex_free) 1700000000000
      ex_typing_form))) =
     [ex_lee, ex_dlwlrma, \<lparr>alias_id = 1700000000000, alias_name = ascii ''Zico''\<rparr>] \<and>
   aliases (formData ex_typing_form) = [ex_lee, ex_dlwlrma] \<and>
   aliases (formData (handleRemoveAlias 7 ex_typing_form)) = [ex_dlwlrma] \<and>
   subseq (aliases (formData (handleRemoveAlias 7 ex_typing_form)))
     (aliases (formData ex_typing_form))"
  using alias_list_order
    [of ex_typing_form "Some ex_artist" "Resolved ex_free" 1700000000000 "ascii ''x''" 7]
  by (simp add: form_defs string_defs example_defs)

subsection \<open>C7: the form is bound to the entity it is given\<close>

text \<open>
  Claim C7: when \<open>initialData\<close> is provided, the form's name, description and aliases are
  exactly those of \<open>initialData\<close>, in the first state and after the effect that runs when
  \<open>initialData\<close> changes. When it is absent the three fields are the empty string, the
  empty string and the empty list. In both cases \<open>nameError\<close>, \<open>aliasError\<close> and the
  pending alias input are cleared.
\<close>

theorem form_bound_to_initialData:
  "formData (initialData_effect (Some a) s) =
     \<lparr>name = name a, description = description a, aliases = aliases a\<rparr> \<and>
   formData (init_form (Some a)) =
     \<lparr>name = name a, description = description a, aliases = aliases a\<rparr> \<and>
   formData (initialData_effect None s) = \<lparr>name = [], description = [], aliases = []\<rparr> \<and>
   formData (init_form None) = \<lparr>name = [], description = [], aliases = []\<rparr> \<and>
   nameError (initialData_effect i s) = None \<and>
   aliasError (initialData_effect i s) = None \<and>
   newAlias (initialData_effect i s) = [] \<and>
   nameError (init_form i) = None \<and>
   aliasError (init_form i) = None \<and>
   newAlias (init_form i) = []"
  by (simp add: initialData_effect_def init_form_def or_else_def truthy_def)

theorem form_bound_to_initialData_witness:
  "formData (initialData_effect (Some ex_artist) ex_typing_form) =
     \<lparr>name = ascii ''IU'', description = ascii ''singer'', aliases = [ex_lee, ex_dlwlrma]\<rparr> \<and>
   newAlias ex_typing_form \<noteq> [] \<and>
   newAlias (initialData_effect None ex_typing_form) = [] \<and>
   formData (initialData_effect None ex_typing_form) =
     \<lparr>name = [], description = [], aliases = []\<rparr>"
  using form_bound_to_initialData [of ex_artist ex_typing_form None]
  by (simp add: string_defs example_defs init_form_def)

subsection \<open>C8: a rejected submission leaves the form as it was\<close>

text \<open>
  Claim C8: if the \<open>onSubmit\<close> callback is called and rejects, the form does not call
  \<open>onCancel\<close>, the form data is unchanged and \<open>isSubmitting\<close> is false again. This is
  shown for the handler run in one go and for its continuation on any state.
\<close>

theorem rejected_submit_keeps_form:
  assumes "form_handleSubmit (Rejected err) s = (s', es)" and "OnSubmit d \<in> set es"
  shows "d = formData s \<and> OnCancel \<notin> set es \<and> formData s' = formData s \<and> \<not> isSubmitting s' \<and>
         OnCancel \<notin> set (snd (form_handleSubmit_resume (Rejected err) t)) \<and>
         formData (fst (form_handleSubmit_resume (Rejected err) t)) = formData t \<and>
         \<not> isSubmitting (fst (form_handleSubmit_resume (Rejected err) t))"
  using assms
  by (auto simp: form_handleSubmit_def form_handleSubmit_begin_def form_handleSubmit_resume_def
        split: if_splits)

theorem rejected_submit_keeps_form_witness:
  "form_handleSubmit (Rejected (ascii ''offline'')) ex_typing_form =
     (ex_typing_form,
      [PreventDefault, OnSubmit (formData ex_typing_form),
       ConsoleError [ascii ''Error submitting form:'', ascii ''offline'']]) \<and>
   OnSubmit (formData ex_typing_form) \<in>
     set [PreventDefault, OnSubmit (formData ex_typing_form),
          ConsoleError [ascii ''Error submitting form:'', ascii ''offline'']] \<and>
   \<not> isSubmitting ex_typing_form"
proof -
  have a: "form_handleSubmit (Rejected (ascii ''offline'')) ex_typing_form =
     (ex_typing_form,
      [PreventDefault, OnSubmit (formData ex_typing_form),
       ConsoleError [ascii ''Error submitting form:'', ascii ''offline'']])"
    by (simp add: form_defs string_defs example_defs)
  have b: "OnSubmit (formData ex_typing_form) \<in>
     set [PreventDefault, OnSubmit (formData ex_typing_form),
          ConsoleError [ascii ''Error submitting form:'', ascii ''offline'']]"
    by simp
  from a b rejected_submit_keeps_form [OF a b, of ex_typing_form]
  show ?thesis by blast
qed

subsection \<open>C9: alias names are trimmed and non-empty\<close>

text \<open>
  Claim C9: starting from the form in create mode, whose alias list is empty, after any
  sequence of events that does not bind the form to an existing artist (so any sequence
  of alias additions and removals, their requests settling in any order, mixed with
  typing) every alias in the list has a non-empty name without whitespace at either end.
  \<open>handleAddAlias\<close> does nothing on an input that is empty or all whitespace, and an
  alias it adds is named by the trimmed input.
\<close>

theorem alias_names_trimmed:
  assumes "list_all (\<lambda>e. \<not> loads_artist e) evs"
  shows "list_all (\<lambda>a. trimmed_nonempty (alias_name a))
           (aliases (formData (form (run_form None evs)))) \<and>
         ((\<forall>c \<in> set (newAlias s). is_ws c) \<longrightarrow> handleAddAlias i settled now s = (s, [])) \<and>
         (\<forall>a \<in> set (aliases (formData (fst (handleAddAlias i settled now s)))).
             a \<in> set (aliases (formData s)) \<or>
             a = \<lparr>alias_id = now, alias_name = trim (newAlias s)\<rparr>)"
proof -
  have "aliases_wf (mount_form None)"
    by (simp add: aliases_wf_def mount_form_def init_form_def)
  then have "aliases_wf (run_form None evs)"
    unfolding run_form_def using assms by (rule fold_aliases_wf)
  then have a: "list_all (\<lambda>a. trimmed_nonempty (alias_name a))
                  (aliases (formData (form (run_form None evs))))"
    by (simp add: aliases_wf_def)
  have b: "(\<forall>c \<in> set (newAlias s). is_ws c) \<longrightarrow> handleAddAlias i settled now s = (s, [])"
    using trim_Nil_iff [of "newAlias s"]
    by (simp add: handleAddAlias_def handleAddAlias_begin_def truthy_def)
  have c: "\<forall>a \<in> set (aliases (formData (fst (handleAddAlias i settled now s)))).
             a \<in> set (aliases (formData s)) \<or>
             a = \<lparr>alias_id = now, alias_name = trim (newAlias s)\<rparr>"
    by (auto simp: handleAddAlias_def handleAddAlias_begin_def handleAddAlias_resume_def Let_def
          split: outcome.splits if_splits)
  from a b c show ?thesis by blast
qed

theorem alias_names_trimmed_witness:
  "list_all (\<lambda>e. \<not> loads_artist e) ex_alias_session \<and>
   aliases (formData (form (run_form None ex_alias_session))) =
     [\<lparr>alias_id = 1700000000000, alias_name = ascii ''Zico''\<rparr>] \<and>
   list_all (\<lambda>a. trimmed_nonempty (alias_name a))
     (aliases (formData (form (run_form None ex_alias_session)))) \<and>
   handleAddAlias None (Resolved ex_free) 5 (init_form None\<lparr>newAlias := ascii ''  ''\<rparr>) =
     (init_form None\<lparr>newAlias := ascii ''  ''\<rparr>, [])"
proof -
  have a: "list_all (\<lambda>e. \<not> loads_artist e) ex_alias_session"
    by (simp add: ex_alias_session_def)
  have b: "aliases (formData (form (run_form None ex_alias_session))) =
     [\<lparr>alias_id = 1700000000000, alias_name = ascii ''Zico''\<rparr>]"
    by (simp add: ex_alias_session_def form_defs string_defs example_defs)
  have c: "\<forall>c \<in> set (newAlias (init_form None\<lparr>newAlias := ascii ''  ''\<rparr>)). is_ws c"
    by (simp add: string_defs)
  from a b c
    alias_names_trimmed [OF a, of "init_form None\<lparr>newAlias := ascii ''  ''\<rparr>" None
      "Resolved ex_free" 5]
  show ?thesis by blast
qed

subsection \<open>C10: removing an alias touches nothing else\<close>

text \<open>
  Claim C10: \<open>handleRemoveAlias(aliasId)\<close> changes nothing but the alias list: name,
  description and every other part of the form state are unchanged. From the list it
  removes exactly the aliases with that id: no alias with the id remains, and the aliases
  with another id are all still there, in the same order and as often as before.
\<close>

theorem remove_alias_frame:
  "name (formData (handleRemoveAlias aliasId s)) = name (formData s) \<and>
   description (formData (handleRemoveAlias aliasId s)) = description (formData s) \<and>
   handleRemoveAlias aliasId s =
     s\<lparr>formData := (formData s)\<lparr>aliases := aliases (formData (handleRemoveAlias aliasId s))\<rparr>\<rparr> \<and>
   (\<forall>a \<in> set (aliases (formData (handleRemoveAlias aliasId s))). alias_id a \<noteq> aliasId) \<and>
   filter (\<lambda>a. alias_id a \<noteq> aliasId) (aliases (formData (handleRemoveAlias aliasId s)))
     = filter (\<lambda>a. alias_id a \<noteq> aliasId) (aliases (formData s))"
  by (simp add: handleRemoveAlias_def)

theorem remove_alias_frame_witness:
  "aliases (formData ex_typing_form) = [ex_lee, ex_dlwlrma] \<and>
   handleRemoveAlias 7 ex_typing_form =
     ex_typing_form\<lparr>formData := (formData ex_typing_form)\<lparr>aliases := [ex_dlwlrma]\<rparr>\<rparr> \<and>
   name (formData (handleRemoveAlias 7 ex_typing_form)) = ascii ''IU''"
  using remove_alias_frame [of 7 ex_typing_form]
  by (simp add: form_defs string_defs example_defs)

end
